theory Spec2Isabelle
  imports Main
begin

section \<open>Python strings\<close>

text \<open>
  A Python \<open>str\<close> is modelled as a \<open>string\<close>: the text in UTF-8, one character of
  the model per byte, so that an ASCII character is one character of the model.
  \<open>str.strip\<close> and \<open>str.upper\<close> work on Unicode text, with tables that are part of the
  interpreter and not of this repository: the model takes both methods as parameters
  (the fields \<open>str_strip\<close> and \<open>str_upper\<close> of the environment below). What the two
  methods do on ASCII text is written out here: \<open>strip_ascii\<close> removes the ASCII white
  space of \<open>str.isspace\<close> (code points 9 to 13, 28 to 31 and 32) at both ends, and
  \<open>upper_ascii\<close> maps \<open>a\<close>..\<open>z\<close> to \<open>A\<close>..\<open>Z\<close>.
\<close>

definition ascii_text :: "string \<Rightarrow> bool" where
  "ascii_text s = list_all (\<lambda>c. \<not> digit7 c) s"

definition isspace :: "char \<Rightarrow> bool" where
  "isspace c = (c \<in> set [CHR 0x09, CHR 0x0A, CHR 0x0B, CHR 0x0C, CHR 0x0D,
                          CHR 0x1C, CHR 0x1D, CHR 0x1E, CHR 0x1F, CHR 0x20])"

definition strip_ascii :: "string \<Rightarrow> string" where
  "strip_ascii s = rev (dropWhile isspace (rev (dropWhile isspace s)))"

definition upper_char :: "char \<Rightarrow> char" where
  "upper_char c =
     (case map_of (zip ''abcdefghijklmnopqrstuvwxyz'' ''ABCDEFGHIJKLMNOPQRSTUVWXYZ'') c of
        Some u \<Rightarrow> u
      | None \<Rightarrow> c)"

definition upper_ascii :: "string \<Rightarrow> string" where
  "upper_ascii s = map upper_char s"

text \<open>\<open>s.startswith(p)\<close>, and \<open>s.startswith((p1, ..., pn))\<close> with a tuple of prefixes.\<close>

definition startswith :: "string \<Rightarrow> string \<Rightarrow> bool" where
  "startswith s p = (take (length p) s = p)"

fun startswith_any :: "string \<Rightarrow> string list \<Rightarrow> bool" where
  "startswith_any s [] = False"
| "startswith_any s (p # ps) = (startswith s p \<or> startswith_any s ps)"

text \<open>\<open>sep.join(xs)\<close>.\<close>

fun join :: "string \<Rightarrow> string list \<Rightarrow> string" where
  "join sep [] = []"
| "join sep [x] = x"
| "join sep (x # y # ys) = x @ sep @ join sep (y # ys)"

text \<open>The decimal digits of a number, with a minus sign when negative.\<close>

fun str_nat :: "nat \<Rightarrow> string" where
  "str_nat n =
     (if n < 10 then [''0123456789'' ! n]
      else str_nat (n div 10) @ [''0123456789'' ! (n mod 10)])"

declare str_nat.simps [simp del]

definition str_int :: "int \<Rightarrow> string" where
  "str_int i = (if i < 0 then CHR ''-'' # str_nat (nat (- i)) else str_nat (nat i))"

text \<open>A text between single quotes, as \<open>repr\<close> writes a plain string.\<close>

definition quoted :: "string \<Rightarrow> string" where
  "quoted t = [CHR 0x27] @ t @ [CHR 0x27]"

section \<open>Exceptions\<close>

text \<open>
  The exceptions that the handlers raise or that reach them from the engine, the
  summarization client and the session. \<open>Sqlite3_Error\<close> stands for \<open>sqlite3.Error\<close> and
  its subclasses; \<open>Other_Exception\<close> for every other class derived from \<open>Exception\<close>
  that is not named here; \<open>Base_Exception\<close> for the classes derived from
  \<open>BaseException\<close> but not from \<open>Exception\<close> (\<open>asyncio.CancelledError\<close>,
  \<open>KeyboardInterrupt\<close>, \<open>SystemExit\<close>), which an \<open>except Exception\<close> clause does not
  catch. Each carries the text of \<open>str(e)\<close>, except \<open>KeyError\<close>, which carries the
  missing key; \<open>Base_Exception\<close> carries the name of its class before the text.
\<close>

datatype exn =
    Sqlite3_Error string
  | ValueError string
  | KeyError string
  | AttributeError string
  | Other_Exception string
  | Base_Exception string string

text \<open>\<open>isinstance(e, Exception)\<close>.\<close>

fun is_Exception :: "exn \<Rightarrow> bool" where
  "is_Exception (Base_Exception cls m) = False"
| "is_Exception e = True"

text \<open>\<open>isinstance(e, sqlite3.Error)\<close>.\<close>

fun is_sqlite3_error :: "exn \<Rightarrow> bool" where
  "is_sqlite3_error (Sqlite3_Error m) = True"
| "is_sqlite3_error e = False"

fun exn_str :: "exn \<Rightarrow> string" where
  "exn_str (Sqlite3_Error m) = m"
| "exn_str (ValueError m) = m"
| "exn_str (KeyError k) = quoted k"
| "exn_str (AttributeError m) = m"
| "exn_str (Other_Exception m) = m"
| "exn_str (Base_Exception cls m) = m"

section \<open>Python values\<close>

text \<open>
  The values a tool call can carry in its \<open>arguments\<close> dictionary (decoded JSON).
  \<open>POther ty r\<close> is a value of another JSON type (a float, a list, a dictionary), known
  by the name \<open>ty\<close> of its type and by what \<open>str()\<close> does on it: \<open>Some txt\<close> when it
  gives the text \<open>txt\<close>, \<open>None\<close> when it raises the error of the integer conversion
  limit (a list or a dictionary that holds an integer beyond the limit).
\<close>

datatype pyval =
    PStr string
  | PInt int
  | PBool bool
  | PNone
  | POther string "string option"

fun type_name :: "pyval \<Rightarrow> string" where
  "type_name (PStr s) = ''str''"
| "type_name (PInt i) = ''int''"
| "type_name (PBool b) = ''bool''"
| "type_name PNone = ''NoneType''"
| "type_name (POther ty r) = ty"

text \<open>\<open>isinstance(v, str)\<close>.\<close>

fun is_str :: "pyval \<Rightarrow> bool" where
  "is_str (PStr s) = True"
| "is_str v = False"

text \<open>
  CPython (3.11 and later, and the patched earlier releases) refuses to convert an
  integer of more than 4300 decimal digits to a string (the default of
  \<open>sys.set_int_max_str_digits\<close>): it raises this \<open>ValueError\<close>.
\<close>

definition int_max_str_digits :: nat where
  "int_max_str_digits = 4300"

definition digits_limit_error :: exn where
  "digits_limit_error =
     ValueError (''Exceeds the limit (4300 digits) for integer string conversion; ''
                 @ ''use sys.set_int_max_str_digits() to increase the limit'')"

text \<open>A value inside an f-string, \<open>f"{v}"\<close>: its text, or the exception that formatting raises.\<close>

fun py_format :: "pyval \<Rightarrow> exn + string" where
  "py_format (PStr s) = Inr s"
| "py_format (PInt i) =
     (if 10 ^ int_max_str_digits \<le> \<bar>i\<bar> then Inl digits_limit_error else Inr (str_int i))"
| "py_format (PBool b) = Inr (if b then ''True'' else ''False'')"
| "py_format PNone = Inr ''None''"
| "py_format (POther ty r) = (case r of None \<Rightarrow> Inl digits_limit_error | Some txt \<Rightarrow> Inr txt)"

section \<open>The server's state and its collaborators\<close>

type_synonym row = "(string \<times> pyval) list"

type_synonym arguments = "(string \<times> pyval) list option"

text \<open>
  What the server does to the outside, in the order it does it: a statement handed to
  \<open>cursor.execute\<close>, a value appended to \<open>self.insights\<close>, a request to the
  summarization service (with the bulleted insights it embeds in its prompt), and a
  \<open>send_resource_updated\<close> call on the session. The trace is a record kept by the model
  only; the server itself stores no such list.
\<close>

datatype event =
    Executed string
  | Appended pyval
  | Collab_Request string
  | Notify string

fun is_collab_request :: "event \<Rightarrow> bool" where
  "is_collab_request (Collab_Request prompt) = True"
| "is_collab_request e = False"

text \<open>
  The environment of the server, over a world \<open>'w\<close> that holds everything outside the
  process (the database file, the summarization service, the session): each call of a
  collaborator takes the world and returns its result, or the exception it raised,
  together with the world after it.
  \<open>messages_create\<close> stands for \<open>self.anthropic_client.messages.create(...)\<close> followed
  by \<open>message.content[0].text\<close>: it answers with that text, or with the exception that
  the request or the reading of the response raised. Its argument is the bulleted
  insights, the only part of the request that varies.
  The last three fields are functions of the interpreter: \<open>str()\<close> of a list of row
  dictionaries, \<open>str.strip\<close> and \<open>str.upper\<close>.
\<close>

record 'w env =
  sqlite3_connect :: "'w \<Rightarrow> (exn + unit) \<times> 'w"
  cursor_execute :: "string \<Rightarrow> 'w \<Rightarrow> (exn + unit) \<times> 'w"
  conn_commit :: "'w \<Rightarrow> (exn + unit) \<times> 'w"
  cursor_rowcount :: "'w \<Rightarrow> int"
  cursor_fetchall :: "'w \<Rightarrow> (exn + row list) \<times> 'w"
  conn_close :: "'w \<Rightarrow> 'w"
  messages_create :: "string \<Rightarrow> 'w \<Rightarrow> (exn + string) \<times> 'w"
  send_resource_updated :: "string \<Rightarrow> 'w \<Rightarrow> (exn + unit) \<times> 'w"
  str_rows :: "row list \<Rightarrow> string"
  str_strip :: "string \<Rightarrow> string"
  str_upper :: "string \<Rightarrow> string"

text \<open>
  The fields of \<open>McpServer\<close> that the handlers read and write. \<open>self.anthropic_client\<close>
  exists exactly when the key is a non-empty string (\<open>if anthropic_api_key:\<close> in
  \<open>__init__\<close>).
\<close>

record 'w server =
  anthropic_api_key :: "string option"
  insights :: "pyval list"
  world :: 'w
  trace :: "event list"

text \<open>\<open>query.strip().upper()\<close>, the form in which every leading keyword is tested.\<close>

definition leading_upper :: "'w env \<Rightarrow> string \<Rightarrow> string" where
  "leading_upper E query = str_upper E (str_strip E query)"

section \<open>The memo\<close>

text \<open>
  The lines \<open>"\n".join(f"- {insight}" for insight in self.insights)\<close>: the insights are
  formatted one after the other, and the first one that cannot be formatted raises.
\<close>

fun bullet_lines :: "pyval list \<Rightarrow> exn + string list" where
  "bullet_lines [] = Inr []"
| "bullet_lines (insight # rest) =
     (case py_format insight of
        Inl e \<Rightarrow> Inl e
      | Inr t \<Rightarrow>
          (case bullet_lines rest of
             Inl e \<Rightarrow> Inl e
           | Inr ls \<Rightarrow> Inr ((''- '' @ t) # ls)))"

definition bulleted :: "pyval list \<Rightarrow> exn + string" where
  "bulleted xs =
     (case bullet_lines xs of
        Inl e \<Rightarrow> Inl e
      | Inr ls \<Rightarrow> Inr (join ''\<newline>'' ls))"

text \<open>The bar chart sign U+1F4CA of the heading, as its four UTF-8 bytes.\<close>

definition bar_chart :: string where
  "bar_chart = [CHR 0xF0, CHR 0x9F, CHR 0x93, CHR 0x8A]"

text \<open>
  The memo built when no API key is set (the branch \<open>self.anthropic_api_key is None\<close>),
  from the bulleted insights and \<open>len(self.insights)\<close>.
\<close>

definition basic_memo :: "string \<Rightarrow> nat \<Rightarrow> string" where
  "basic_memo ins n =
     bar_chart @ '' Business Intelligence Memo '' @ bar_chart @ ''\<newline>\<newline>''
     @ ''Key Insights Discovered:\<newline>\<newline>''
     @ ins
     @ (if n > 1
        then ''\<newline>Summary:\<newline>''
             @ ''Analysis has revealed '' @ str_nat n
             @ '' key business insights that suggest opportunities for strategic optimization and growth.''
        else [])"

text \<open>
  \<open>_synthesize_memo\<close>: \<open>Inr\<close> the memo it returns, \<open>Inl\<close> the exception it raises. The
  insights are formatted before the \<open>try\<close>, so a formatting error leaves the function.
  With a key that is set but empty there is no \<open>self.anthropic_client\<close>: the attribute
  access raises inside the \<open>try\<close>, before any request, and the \<open>except Exception\<close>
  branch returns the bulleted insights. That branch catches what the request raises,
  unless it is outside \<open>Exception\<close>.
\<close>

definition synthesize_memo :: "'w env \<Rightarrow> 'w server \<Rightarrow> (exn + string) \<times> 'w server" where
  "synthesize_memo E s =
     (if insights s = [] then (Inr ''No business insights have been discovered yet.'', s)
      else
        (case bulleted (insights s) of
           Inl e \<Rightarrow> (Inl e, s)
         | Inr ins \<Rightarrow>
             (case anthropic_api_key s of
                None \<Rightarrow> (Inr (basic_memo ins (length (insights s))), s)
              | Some k \<Rightarrow>
                  if k = [] then (Inr ins, s)
                  else
                    (case messages_create E ins (world s) of
                       (Inl e, w) \<Rightarrow>
                         (if is_Exception e then Inr ins else Inl e,
                          s\<lparr>world := w, trace := trace s @ [Collab_Request ins]\<rparr>)
                     | (Inr text, w) \<Rightarrow>
                         (Inr (str_strip E text),
                          s\<lparr>world := w, trace := trace s @ [Collab_Request ins]\<rparr>)))))"

section \<open>The query executor\<close>

text \<open>
  \<open>_execute_query\<close> (always called without parameters by the handlers): connect, execute
  the statement, then either commit and report the row count, or fetch the rows. The
  connection is closed on every path that opened it, and every exception is raised
  again after it is logged.
\<close>

definition commits :: "'w env \<Rightarrow> string \<Rightarrow> bool" where
  "commits E query =
     startswith_any (leading_upper E query)
       [''INSERT'', ''UPDATE'', ''DELETE'', ''CREATE'', ''DROP'', ''ALTER'']"

definition execute_query :: "'w env \<Rightarrow> string \<Rightarrow> 'w server \<Rightarrow> (exn + row list) \<times> 'w server" where
  "execute_query E query s =
     (case sqlite3_connect E (world s) of
        (Inl e, w1) \<Rightarrow> (Inl e, s\<lparr>world := w1\<rparr>)
      | (Inr u1, w1) \<Rightarrow>
          (case cursor_execute E query w1 of
             (Inl e, w2) \<Rightarrow>
               (Inl e, s\<lparr>world := conn_close E w2, trace := trace s @ [Executed query]\<rparr>)
           | (Inr u2, w2) \<Rightarrow>
               if commits E query then
                 (case conn_commit E w2 of
                    (Inl e, w3) \<Rightarrow>
                      (Inl e, s\<lparr>world := conn_close E w3, trace := trace s @ [Executed query]\<rparr>)
                  | (Inr u3, w3) \<Rightarrow>
                      (Inr [[(''affected_rows'', PInt (cursor_rowcount E w3))]],
                       s\<lparr>world := conn_close E w3, trace := trace s @ [Executed query]\<rparr>))
               else
                 (case cursor_fetchall E w2 of
                    (Inl e, w3) \<Rightarrow>
                      (Inl e, s\<lparr>world := conn_close E w3, trace := trace s @ [Executed query]\<rparr>)
                  | (Inr results, w3) \<Rightarrow>
                      (Inr results,
                       s\<lparr>world := conn_close E w3, trace := trace s @ [Executed query]\<rparr>))))"

section \<open>The tool catalog\<close>

text \<open>
  \<open>handle_list_tools\<close>: each tool with the properties of its input schema (name and
  JSON type) and the names it requires.
\<close>

record tool =
  tool_name :: string
  description :: string
  properties :: "(string \<times> string) list"
  required :: "string list"

definition handle_list_tools :: "tool list" where
  "handle_list_tools =
     [\<lparr>tool_name = ''read-query'',
       description = ''Execute a SELECT query on the SQLite database'',
       properties = [(''query'', ''string'')], required = [''query'']\<rparr>,
      \<lparr>tool_name = ''write-query'',
       description = ''Execute an INSERT, UPDATE, or DELETE query on the SQLite database'',
       properties = [(''query'', ''string'')], required = [''query'']\<rparr>,
      \<lparr>tool_name = ''create-table'',
       description = ''Create a new table in the SQLite database'',
       properties = [(''query'', ''string'')], required = [''query'']\<rparr>,
      \<lparr>tool_name = ''list-tables'',
       description = ''List all tables in the SQLite database'',
       properties = [], required = []\<rparr>,
      \<lparr>tool_name = ''describe-table'',
       description = ''Get the schema information for a specific table'',
       properties = [(''table_name'', ''string'')], required = [''table_name'']\<rparr>,
      \<lparr>tool_name = ''append-insight'',
       description = ''Add a business insight to the memo'',
       properties = [(''insight'', ''string'')], required = [''insight'']\<rparr>]"

section \<open>The tool-call handler\<close>

text \<open>\<open>not arguments\<close>: the dictionary is \<open>None\<close> or empty.\<close>

fun py_not :: "arguments \<Rightarrow> bool" where
  "py_not None = True"
| "py_not (Some d) = (d = [])"

text \<open>
  \<open>key in arguments\<close> and \<open>arguments[key]\<close>. The handler reaches both with a
  dictionary only; on \<open>None\<close> Python raises a \<open>TypeError\<close>.
\<close>

fun py_in :: "string \<Rightarrow> arguments \<Rightarrow> bool" where
  "py_in key None = False"
| "py_in key (Some d) = (map_of d key \<noteq> None)"

fun getitem :: "arguments \<Rightarrow> string \<Rightarrow> exn + pyval" where
  "getitem None key =
     Inl (Other_Exception (quoted ''NoneType'' @ '' object is not subscriptable''))"
| "getitem (Some d) key = (case map_of d key of None \<Rightarrow> Inl (KeyError key) | Some v \<Rightarrow> Inr v)"

text \<open>
  The \<open>AttributeError\<close> of \<open>v.strip()\<close> on a value that is not a string (no other JSON
  value has a \<open>strip\<close> method).
\<close>

definition no_strip :: "pyval \<Rightarrow> exn" where
  "no_strip v =
     AttributeError (quoted (type_name v) @ '' object has no attribute '' @ quoted ''strip'')"

definition list_tables_sql :: string where
  "list_tables_sql = ''SELECT name FROM sqlite_master WHERE type='' @ quoted ''table''"

text \<open>\<open>return [types.TextContent(type="text", text=str(results))]\<close> after a query.\<close>

definition text_content ::
  "'w env \<Rightarrow> (exn + row list) \<times> 'w server \<Rightarrow> (exn + string) \<times> 'w server" where
  "text_content E r =
     (case r of
        (Inl e, s') \<Rightarrow> (Inl e, s')
      | (Inr results, s') \<Rightarrow> (Inr (str_rows E results), s'))"

text \<open>
  The body of the \<open>try\<close> in \<open>handle_call_tool\<close>: \<open>Inl e\<close> when it raises \<open>e\<close>,
  \<open>Inr text\<close> when it returns a text content.
\<close>

definition handle_call_tool_try ::
  "'w env \<Rightarrow> 'w server \<Rightarrow> string \<Rightarrow> arguments \<Rightarrow> (exn + string) \<times> 'w server" where
  "handle_call_tool_try E s name arguments =
     (if name = ''list-tables'' then text_content E (execute_query E list_tables_sql s)
      else if name = ''describe-table'' then
        (if py_not arguments \<or> \<not> py_in ''table_name'' arguments
         then (Inl (ValueError ''Missing table_name argument''), s)
         else
           (case getitem arguments ''table_name'' of
              Inl e \<Rightarrow> (Inl e, s)
            | Inr v \<Rightarrow>
                (case py_format v of
                   Inl e \<Rightarrow> (Inl e, s)
                 | Inr t \<Rightarrow>
                     text_content E
                       (execute_query E (''PRAGMA table_info('' @ t @ '')'') s))))
      else if name = ''append-insight'' then
        (if py_not arguments \<or> \<not> py_in ''insight'' arguments
         then (Inl (ValueError ''Missing insight argument''), s)
         else
           (case getitem arguments ''insight'' of
              Inl e \<Rightarrow> (Inl e, s)
            | Inr v \<Rightarrow>
                (case synthesize_memo E
                        (s\<lparr>insights := insights s @ [v], trace := trace s @ [Appended v]\<rparr>) of
                   (Inl e, s1) \<Rightarrow> (Inl e, s1)
                 | (Inr memo, s1) \<Rightarrow>
                     (case send_resource_updated E ''memo://insights'' (world s1) of
                        (Inl e, w) \<Rightarrow>
                          (Inl e,
                           s1\<lparr>world := w, trace := trace s1 @ [Notify ''memo://insights'']\<rparr>)
                      | (Inr u, w) \<Rightarrow>
                          (Inr ''Insight added to memo'',
                           s1\<lparr>world := w, trace := trace s1 @ [Notify ''memo://insights'']\<rparr>)))))
      else if py_not arguments then (Inl (ValueError ''Missing arguments''), s)
      else if name = ''read-query'' then
        (case getitem arguments ''query'' of
           Inl e \<Rightarrow> (Inl e, s)
         | Inr v \<Rightarrow>
             (case v of
                PStr query \<Rightarrow>
                  if \<not> startswith (leading_upper E query) ''SELECT''
                  then (Inl (ValueError ''Only SELECT queries are allowed for read-query''), s)
                  else text_content E (execute_query E query s)
              | _ \<Rightarrow> (Inl (no_strip v), s)))
      else if name = ''write-query'' then
        (case getitem arguments ''query'' of
           Inl e \<Rightarrow> (Inl e, s)
         | Inr v \<Rightarrow>
             (case v of
                PStr query \<Rightarrow>
                  if startswith (leading_upper E query) ''SELECT''
                  then (Inl (ValueError ''SELECT queries are not allowed for write-query''), s)
                  else text_content E (execute_query E query s)
              | _ \<Rightarrow> (Inl (no_strip v), s)))
      else if name = ''create-table'' then
        (case getitem arguments ''query'' of
           Inl e \<Rightarrow> (Inl e, s)
         | Inr v \<Rightarrow>
             (case v of
                PStr query \<Rightarrow>
                  if \<not> startswith (leading_upper E query) ''CREATE TABLE''
                  then (Inl (ValueError ''Only CREATE TABLE statements are allowed''), s)
                  else
                    (case execute_query E query s of
                       (Inl e, s') \<Rightarrow> (Inl e, s')
                     | (Inr results, s') \<Rightarrow> (Inr ''Table created successfully'', s'))
              | _ \<Rightarrow> (Inl (no_strip v), s)))
      else (Inl (ValueError (''Unknown tool: '' @ name)), s))"

text \<open>
  The two \<open>except\<close> clauses, in their order: \<open>sqlite3.Error\<close>, then \<open>Exception\<close>; an
  exception that neither clause matches leaves the handler. \<open>Inr text\<close> is a returned
  text content, \<open>Inl e\<close> an exception raised to the caller of the handler.
\<close>

definition except_clauses :: "exn \<Rightarrow> exn + string" where
  "except_clauses e =
     (case e of
        Sqlite3_Error m \<Rightarrow> Inr (''Database error: '' @ m)
      | _ \<Rightarrow> if is_Exception e then Inr (''Error: '' @ exn_str e) else Inl e)"

definition handle_call_tool ::
  "'w env \<Rightarrow> 'w server \<Rightarrow> string \<Rightarrow> arguments \<Rightarrow> (exn + string) \<times> 'w server" where
  "handle_call_tool E s name arguments =
     (case handle_call_tool_try E s name arguments of
        (Inl e, s') \<Rightarrow> (except_clauses e, s')
      | (Inr text, s') \<Rightarrow> (Inr text, s'))"

section \<open>Conditions on the environment\<close>

text \<open>
  The collaborators raise instances of \<open>Exception\<close> only: no call is cancelled or
  interrupted.
\<close>

definition only_exceptions :: "'w env \<Rightarrow> bool" where
  "only_exceptions E =
     ((\<forall>w e. fst (sqlite3_connect E w) = Inl e \<longrightarrow> is_Exception e)
      \<and> (\<forall>q w e. fst (cursor_execute E q w) = Inl e \<longrightarrow> is_Exception e)
      \<and> (\<forall>w e. fst (conn_commit E w) = Inl e \<longrightarrow> is_Exception e)
      \<and> (\<forall>w e. fst (cursor_fetchall E w) = Inl e \<longrightarrow> is_Exception e)
      \<and> (\<forall>p w e. fst (messages_create E p w) = Inl e \<longrightarrow> is_Exception e)
      \<and> (\<forall>u w e. fst (send_resource_updated E u w) = Inl e \<longrightarrow> is_Exception e))"



section \<open>A small world for concrete runs\<close>

text \<open>
  An engine that accepts every statement, reports no affected row and returns no row; a
  summarization service that fails on its first, third, ... request and answers on the
  others (the world counts the requests made); a session that accepts every
  notification; the string methods of ASCII text. Then three variants: a session whose
  sending fails, a session whose sending is cancelled, and an engine that rejects every
  statement.
\<close>

definition demo_env :: "nat env" where
  "demo_env =
     \<lparr>sqlite3_connect = (\<lambda>w. (Inr (), w)),
      cursor_execute = (\<lambda>query w. (Inr (), w)),
      conn_commit = (\<lambda>w. (Inr (), w)),
      cursor_rowcount = (\<lambda>w. - 1),
      cursor_fetchall = (\<lambda>w. (Inr [], w)),
      conn_close = (\<lambda>w. w),
      messages_create =
        (\<lambda>prompt w. (if even w then Inl (Other_Exception ''Connection error.'')
                      else Inr '' Quarterly memo '', Suc w)),
      send_resource_updated = (\<lambda>uri w. (Inr (), w)),
      str_rows = (\<lambda>results. if results = [] then ''[]'' else ''[...]''),
      str_strip = strip_ascii,
      str_upper = upper_ascii\<rparr>"

definition failing_session_env :: "nat env" where
  "failing_session_env =
     demo_env\<lparr>send_resource_updated := (\<lambda>uri w. (Inl (Other_Exception ''session closed''), w))\<rparr>"

definition cancelled_session_env :: "nat env" where
  "cancelled_session_env =
     demo_env\<lparr>send_resource_updated := (\<lambda>uri w. (Inl (Base_Exception ''CancelledError'' []), w))\<rparr>"

definition failing_engine_env :: "nat env" where
  "failing_engine_env =
     demo_env\<lparr>cursor_execute := (\<lambda>query w. (Inl (Sqlite3_Error ''no such table: t''), w))\<rparr>"

definition demo_server :: "string option \<Rightarrow> pyval list \<Rightarrow> nat server" where
  "demo_server key xs = \<lparr>anthropic_api_key = key, insights = xs, world = 0, trace = []\<rparr>"

section \<open>Classification by leading keyword\<close>










lemma ascii_upper_char: "\<not> digit7 c \<Longrightarrow> \<not> digit7 (upper_char c)"
  by (auto simp add: upper_char_def split: option.splits if_splits)

lemma ascii_text_upper: "ascii_text s \<Longrightarrow> ascii_text (upper_ascii s)"
  by (simp add: ascii_text_def upper_ascii_def list_all_iff ascii_upper_char)




lemmas eval_string =
  upper_ascii_def strip_ascii_def isspace_def upper_char_def startswith_def ascii_text_def




section \<open>The boundary of the tool-call handler\<close>

lemmas eval_handler =
  handle_call_tool_def handle_call_tool_try_def except_clauses_def text_content_def
  execute_query_def synthesize_memo_def demo_env_def demo_server_def failing_session_env_def
  cancelled_session_env_def failing_engine_env_def bulleted_def basic_memo_def bar_chart_def
  list_tables_sql_def quoted_def no_strip_def leading_upper_def commits_def

lemma map_of_Some_not_Nil: "map_of d k = Some v \<Longrightarrow> d \<noteq> []"
  by auto

lemma handle_call_tool_raised:
  "handle_call_tool_try E s name arguments = (Inl e, s') \<Longrightarrow>
   handle_call_tool E s name arguments = (except_clauses e, s')"
  by (simp add: handle_call_tool_def)

lemma handle_call_tool_returned:
  "handle_call_tool_try E s name arguments = (Inr t, s') \<Longrightarrow>
   handle_call_tool E s name arguments = (Inr t, s')"
  by (simp add: handle_call_tool_def)

lemma handle_call_tool_snd:
  "snd (handle_call_tool E s name arguments) = snd (handle_call_tool_try E s name arguments)"
  by (simp add: handle_call_tool_def split: prod.splits sum.splits)

lemma handle_call_tool_fst:
  "fst (handle_call_tool E s name arguments) =
     (case fst (handle_call_tool_try E s name arguments) of
        Inl e \<Rightarrow> except_clauses e
      | Inr t \<Rightarrow> Inr t)"
  by (simp add: handle_call_tool_def split: prod.splits sum.splits)

text \<open>What the body raises by itself is an instance of \<open>Exception\<close>.\<close>

lemma py_format_raises: "py_format v = Inl e \<Longrightarrow> e = digits_limit_error"
  by (cases v) (auto split: if_splits option.splits)

lemma bullet_lines_raises: "bullet_lines xs = Inl e \<Longrightarrow> e = digits_limit_error"
  by (induction xs) (auto split: sum.splits dest: py_format_raises)

lemma bulleted_raises: "bulleted xs = Inl e \<Longrightarrow> e = digits_limit_error"
  by (auto simp add: bulleted_def split: sum.splits dest: bullet_lines_raises)

lemma digits_limit_error_Exception: "is_Exception digits_limit_error"
  by (simp add: digits_limit_error_def)

lemma getitem_raises: "getitem arguments key = Inl e \<Longrightarrow> is_Exception e"
  by (cases arguments) (auto split: option.splits)

lemma execute_query_raises:
  assumes "only_exceptions E" and "fst (execute_query E query s) = Inl e"
  shows "is_Exception e"
proof -
  have c: "\<And>w r w'. sqlite3_connect E w = (Inl r, w') \<Longrightarrow> is_Exception r"
    and x: "\<And>q w r w'. cursor_execute E q w = (Inl r, w') \<Longrightarrow> is_Exception r"
    and m: "\<And>w r w'. conn_commit E w = (Inl r, w') \<Longrightarrow> is_Exception r"
    and f: "\<And>w r w'. cursor_fetchall E w = (Inl r, w') \<Longrightarrow> is_Exception r"
    using assms(1) unfolding only_exceptions_def by (metis fst_conv)+
  show ?thesis
    using assms(2) c x m f
    by (auto simp add: execute_query_def split: prod.splits sum.splits if_splits)
qed

lemma text_content_raises:
  "fst (text_content E r) = Inl e \<Longrightarrow> fst r = Inl e"
  by (auto simp add: text_content_def split: prod.splits sum.splits)

lemma synthesize_memo_raises:
  assumes "only_exceptions E" and "fst (synthesize_memo E s) = Inl e"
  shows "is_Exception e"
proof -
  have m: "\<And>p w r w'. messages_create E p w = (Inl r, w') \<Longrightarrow> is_Exception r"
    using assms(1) unfolding only_exceptions_def by (metis fst_conv)
  show ?thesis
    using assms(2) m digits_limit_error_Exception
    by (auto simp add: synthesize_memo_def
          split: prod.splits sum.splits if_splits option.splits dest: bulleted_raises)
qed

lemma try_raises:
  assumes "only_exceptions E" and "fst (handle_call_tool_try E s name arguments) = Inl e"
  shows "is_Exception e"
proof -
  have n: "\<And>u w r w'. send_resource_updated E u w = (Inl r, w') \<Longrightarrow> is_Exception r"
    using assms(1) unfolding only_exceptions_def by (metis fst_conv)
  have q: "\<And>query s0 s'. execute_query E query s0 = (Inl e, s') \<Longrightarrow> is_Exception e"
    using execute_query_raises [OF assms(1)] by (metis fst_conv)
  have t: "\<And>query s0. fst (text_content E (execute_query E query s0)) = Inl e \<Longrightarrow> is_Exception e"
    using execute_query_raises [OF assms(1)] text_content_raises by blast
  have y: "\<And>s0 s1. synthesize_memo E s0 = (Inl e, s1) \<Longrightarrow> is_Exception e"
    using synthesize_memo_raises [OF assms(1)] by (metis fst_conv)
  have g: "\<And>k. getitem arguments k = Inl e \<Longrightarrow> is_Exception e"
    by (rule getitem_raises)
  have p: "\<And>v. py_format v = Inl e \<Longrightarrow> is_Exception e"
    using py_format_raises digits_limit_error_Exception by blast
  consider (lt) "name = ''list-tables''" | (dt) "name = ''describe-table''"
    | (ai) "name = ''append-insight''" | (rq) "name = ''read-query''"
    | (wq) "name = ''write-query''" | (ct) "name = ''create-table''"
    | (other) "name \<notin> set [''list-tables'', ''describe-table'', ''append-insight'',
                              ''read-query'', ''write-query'', ''create-table'']"
    by auto
  then show ?thesis
  proof cases
    case lt
    then show ?thesis
      using assms(2) t by (simp add: handle_call_tool_try_def)
  next
    case dt
    then show ?thesis
      using assms(2) t g p
      by (auto simp add: handle_call_tool_try_def split: sum.splits if_splits)
  next
    case ai
    then show ?thesis
      using assms(2) g y n
      by (auto simp add: handle_call_tool_try_def split: sum.splits if_splits prod.splits)
  next
    case rq
    then show ?thesis
      using assms(2) t g
      by (auto simp add: handle_call_tool_try_def no_strip_def
            split: sum.splits if_splits pyval.splits)
  next
    case wq
    then show ?thesis
      using assms(2) t g
      by (auto simp add: handle_call_tool_try_def no_strip_def
            split: sum.splits if_splits pyval.splits)
  next
    case ct
    then show ?thesis
      using assms(2) q g
      by (auto simp add: handle_call_tool_try_def no_strip_def
            split: sum.splits if_splits pyval.splits prod.splits)
  next
    case other
    then show ?thesis
      using assms(2) by (auto simp add: handle_call_tool_try_def split: if_splits)
  qed
qed

lemma demo_envs_only_exceptions:
  "only_exceptions demo_env \<and> only_exceptions failing_engine_env
   \<and> only_exceptions failing_session_env"
  by (auto simp add: only_exceptions_def demo_env_def failing_engine_env_def
        failing_session_env_def split: if_splits)

text \<open>
  An \<open>append-insight\<close> call whose notification is cancelled while it is awaited: the
  \<open>CancelledError\<close> is not an \<open>Exception\<close>, no \<open>except\<close> clause takes it, and the
  handler raises it to its caller.
\<close>

theorem cancelled_call_counterexample:
  "fst (handle_call_tool cancelled_session_env (demo_server None []) ''append-insight''
          (Some [(''insight'', PStr ''X'')]))
     = Inl (Base_Exception ''CancelledError'' [])"
  by (simp add: eval_handler)

text \<open>
  C1, as the handler has it. Whatever the tool name and the arguments:
  when the \<open>try\<close> body returns a text, the handler returns that text; when the body
  raises an \<open>sqlite3.Error\<close> with message \<open>m\<close>, the handler returns the text
  \<open>Database error: m\<close>; when it raises any other instance \<open>e\<close> of \<open>Exception\<close>, the
  handler returns the text \<open>Error: str(e)\<close>; a text of one of the two error forms never
  starts with the prefix of the other. Lookup, validation, policy checking and
  formatting raise instances of \<open>Exception\<close> only, so with collaborators that raise
  instances of \<open>Exception\<close> only the handler returns a text content for every call. The
  handler raises only what a collaborator raised outside \<open>Exception\<close>. The state after
  the call is the one the body left.
\<close>

theorem handle_call_tool_catches:
  "(only_exceptions E \<longrightarrow> (\<exists>text. fst (handle_call_tool E s name arguments) = Inr text))
   \<and> (fst (handle_call_tool_try E s name arguments) = Inr t \<longrightarrow>
        fst (handle_call_tool E s name arguments) = Inr t)
   \<and> (fst (handle_call_tool_try E s name arguments) = Inl (Sqlite3_Error m) \<longrightarrow>
        fst (handle_call_tool E s name arguments) = Inr (''Database error: '' @ m)
        \<and> \<not> startswith (''Database error: '' @ m) ''Error: '')
   \<and> (fst (handle_call_tool_try E s name arguments) = Inl e
        \<and> is_Exception e \<and> \<not> is_sqlite3_error e \<longrightarrow>
        fst (handle_call_tool E s name arguments) = Inr (''Error: '' @ exn_str e)
        \<and> \<not> startswith (''Error: '' @ exn_str e) ''Database error: '')
   \<and> (fst (handle_call_tool E s name arguments) = Inl e' \<longrightarrow>
        \<not> is_Exception e' \<and> fst (handle_call_tool_try E s name arguments) = Inl e'
        \<and> \<not> only_exceptions E)
   \<and> snd (handle_call_tool E s name arguments) = snd (handle_call_tool_try E s name arguments)"
proof -
  let ?body = "fst (handle_call_tool_try E s name arguments)"
  let ?call = "fst (handle_call_tool E s name arguments)"
  have returned: "?call = Inr t" if "?body = Inr t"
    using that by (simp add: handle_call_tool_fst)
  have engine: "?call = Inr (''Database error: '' @ m)
                \<and> \<not> startswith (''Database error: '' @ m) ''Error: ''"
    if "?body = Inl (Sqlite3_Error m)"
    using that by (simp add: handle_call_tool_fst except_clauses_def startswith_def)
  have other: "?call = Inr (''Error: '' @ exn_str e)
               \<and> \<not> startswith (''Error: '' @ exn_str e) ''Database error: ''"
    if "?body = Inl e \<and> is_Exception e \<and> \<not> is_sqlite3_error e"
    using that by (cases e) (simp_all add: handle_call_tool_fst except_clauses_def startswith_def)
  have raised: "\<not> is_Exception x \<and> ?body = Inl x" if "?call = Inl x" for x
  proof (cases ?body)
    case (Inl r)
    with that show ?thesis
      by (cases r) (auto simp add: handle_call_tool_fst except_clauses_def)
  next
    case (Inr r)
    with that show ?thesis
      by (simp add: handle_call_tool_fst)
  qed
  have total: "\<exists>text. ?call = Inr text" if "only_exceptions E"
  proof (cases ?call)
    case (Inl r)
    then have "\<not> is_Exception r" "?body = Inl r"
      using raised by blast+
    then show ?thesis
      using try_raises [OF that] by blast
  next
    case (Inr answer)
    then show ?thesis by blast
  qed
  have escapes: "\<not> only_exceptions E" if "?call = Inl e'"
    using total that by auto
  show ?thesis
    using returned engine other raised [of e'] total escapes
      handle_call_tool_snd [of E s name arguments]
    by blast
qed

text \<open>
  The theorem where the engine rejects the statement of a \<open>read-query\<close>, and at a tool
  name that the handler does not know.
\<close>

theorem handle_call_tool_catches_witness:
  "fst (handle_call_tool failing_engine_env (demo_server None []) ''read-query''
          (Some [(''query'', PStr ''SELECT * FROM t'')]))
     = Inr ''Database error: no such table: t''
   \<and> fst (handle_call_tool demo_env (demo_server None []) ''no-such-tool'' (Some [(''x'', PNone)]))
     = Inr ''Error: Unknown tool: no-such-tool''
   \<and> (\<exists>text. fst (handle_call_tool demo_env (demo_server (Some ''key'') []) ''append-insight''
                     (Some [(''insight'', PStr ''X'')])) = Inr text)"
proof -
  have engine: "fst (handle_call_tool_try failing_engine_env (demo_server None []) ''read-query''
                      (Some [(''query'', PStr ''SELECT * FROM t'')]))
                  = Inl (Sqlite3_Error ''no such table: t'')"
    by (simp add: eval_handler eval_string)
  have unknown: "fst (handle_call_tool_try demo_env (demo_server None []) ''no-such-tool''
                       (Some [(''x'', PNone)]))
                   = Inl (ValueError ''Unknown tool: no-such-tool'')"
    by (simp add: handle_call_tool_try_def)
  have env: "only_exceptions demo_env"
    using demo_envs_only_exceptions by simp
  have a: "fst (handle_call_tool failing_engine_env (demo_server None []) ''read-query''
                 (Some [(''query'', PStr ''SELECT * FROM t'')]))
             = Inr (''Database error: '' @ ''no such table: t'')"
    using handle_call_tool_catches [of failing_engine_env "demo_server None []" "''read-query''"
            "Some [(''query'', PStr ''SELECT * FROM t'')]" "[]" "''no such table: t''"
            "ValueError []" "ValueError []"] engine
    by blast
  have b: "fst (handle_call_tool demo_env (demo_server None []) ''no-such-tool''
                 (Some [(''x'', PNone)]))
             = Inr (''Error: '' @ exn_str (ValueError ''Unknown tool: no-such-tool''))"
    using handle_call_tool_catches [of demo_env "demo_server None []" "''no-such-tool''"
            "Some [(''x'', PNone)]" "[]" "[]"
            "ValueError ''Unknown tool: no-such-tool''" "ValueError []"] unknown
    by simp
  have c: "\<exists>text. fst (handle_call_tool demo_env (demo_server (Some ''key'') []) ''append-insight''
                     (Some [(''insight'', PStr ''X'')])) = Inr text"
    using handle_call_tool_catches [of demo_env "demo_server (Some ''key'') []" "''append-insight''"
            "Some [(''insight'', PStr ''X'')]" "[]" "[]" "ValueError []" "ValueError []"] env
    by blast
  show ?thesis
    using a b c by simp
qed

section \<open>Unknown tools\<close>

text \<open>
  The call \<open>call("drop-everything", {})\<close> of the specification does not leave the handler
  as an exception: it returns a text content, and the text is the one of the check for
  missing arguments, which the handler makes before it looks at the name.
\<close>

theorem unknown_tool_counterexample:
  "fst (handle_call_tool demo_env (demo_server None []) ''drop-everything'' (Some []))
     = Inr ''Error: Missing arguments''"
  by (simp add: eval_handler)

lemma unknown_tool_try:
  assumes "name \<notin> set (map tool_name handle_list_tools)"
  shows "handle_call_tool_try E s name arguments =
           (Inl (ValueError (if py_not arguments then ''Missing arguments''
                             else ''Unknown tool: '' @ name)), s)"
  using assms by (simp add: handle_list_tools_def handle_call_tool_try_def)

text \<open>
  C2, as the handler has it. A call of a tool whose name is not in the catalog returns a
  text content that starts with \<open>Error: \<close> (never with \<open>Database error: \<close>) and leaves
  the state as it was, so nothing is executed; when the arguments are a non-empty
  dictionary the text is \<open>Error: Unknown tool: \<close> followed by the name.
\<close>

theorem unknown_tool_error_text:
  assumes "name \<notin> set (map tool_name handle_list_tools)"
  shows "\<exists>msg. handle_call_tool E s name arguments = (Inr (''Error: '' @ msg), s)
           \<and> \<not> startswith (''Error: '' @ msg) ''Database error: ''
           \<and> (\<not> py_not arguments \<longrightarrow> msg = ''Unknown tool: '' @ name)"
proof -
  let ?msg = "if py_not arguments then ''Missing arguments'' else ''Unknown tool: '' @ name"
  have "handle_call_tool E s name arguments = (Inr (''Error: '' @ ?msg), s)"
    using handle_call_tool_raised [OF unknown_tool_try [OF assms, of E s arguments]]
    by (simp add: except_clauses_def)
  moreover have "\<not> startswith (''Error: '' @ ?msg) ''Database error: ''"
    by (simp add: startswith_def)
  moreover have "\<not> py_not arguments \<longrightarrow> ?msg = ''Unknown tool: '' @ name"
    by simp
  ultimately show ?thesis by blast
qed

text \<open>The theorem at \<open>drop-everything\<close> with one argument.\<close>

theorem unknown_tool_error_text_witness:
  "handle_call_tool demo_env (demo_server None []) ''drop-everything'' (Some [(''force'', PBool True)])
     = (Inr ''Error: Unknown tool: drop-everything'', demo_server None [])"
  using unknown_tool_error_text [of "''drop-everything''" demo_env "demo_server None []"
          "Some [(''force'', PBool True)]"]
  by (simp add: handle_list_tools_def)

section \<open>The policy of the query tools\<close>

lemma policy_try:
  assumes "map_of d ''query'' = Some (PStr query)"
  shows "(\<not> startswith (leading_upper E query) ''SELECT'' \<longrightarrow>
            handle_call_tool_try E s ''read-query'' (Some d)
              = (Inl (ValueError ''Only SELECT queries are allowed for read-query''), s))
       \<and> (startswith (leading_upper E query) ''SELECT'' \<longrightarrow>
            handle_call_tool_try E s ''write-query'' (Some d)
              = (Inl (ValueError ''SELECT queries are not allowed for write-query''), s))
       \<and> (\<not> startswith (leading_upper E query) ''CREATE TABLE'' \<longrightarrow>
            handle_call_tool_try E s ''create-table'' (Some d)
              = (Inl (ValueError ''Only CREATE TABLE statements are allowed''), s))"
  using assms map_of_Some_not_Nil [OF assms]
  by (simp add: handle_call_tool_try_def)

text \<open>
  C3. With a string \<open>query\<close> in the arguments, and the statement read as the handler
  reads it, through \<open>query.strip().upper()\<close> with the interpreter's own \<open>str.strip\<close> and
  \<open>str.upper\<close> (the fields of the environment, on every text): \<open>read-query\<close> raises its
  policy error (a \<open>ValueError\<close>) unless that form starts with \<open>SELECT\<close>; \<open>write-query\<close>
  raises its policy error when it starts with \<open>SELECT\<close>; \<open>create-table\<close> raises its
  policy error unless it starts with \<open>CREATE TABLE\<close>. In each case the handler returns
  the error as a text and the state (the world and the trace of executed statements
  with it) is the one before the call: no statement reaches the engine.
\<close>

theorem policy_violation_executes_nothing:
  assumes "map_of d ''query'' = Some (PStr query)"
  shows "(\<not> startswith (leading_upper E query) ''SELECT'' \<longrightarrow>
            handle_call_tool_try E s ''read-query'' (Some d)
              = (Inl (ValueError ''Only SELECT queries are allowed for read-query''), s)
            \<and> handle_call_tool E s ''read-query'' (Some d)
              = (Inr ''Error: Only SELECT queries are allowed for read-query'', s))
       \<and> (startswith (leading_upper E query) ''SELECT'' \<longrightarrow>
            handle_call_tool_try E s ''write-query'' (Some d)
              = (Inl (ValueError ''SELECT queries are not allowed for write-query''), s)
            \<and> handle_call_tool E s ''write-query'' (Some d)
              = (Inr ''Error: SELECT queries are not allowed for write-query'', s))
       \<and> (\<not> startswith (leading_upper E query) ''CREATE TABLE'' \<longrightarrow>
            handle_call_tool_try E s ''create-table'' (Some d)
              = (Inl (ValueError ''Only CREATE TABLE statements are allowed''), s)
            \<and> handle_call_tool E s ''create-table'' (Some d)
              = (Inr ''Error: Only CREATE TABLE statements are allowed'', s))"
  using policy_try [OF assms, of E s]
  by (simp add: handle_call_tool_def except_clauses_def)

text \<open>The three violating calls of property P2 of the specification.\<close>

theorem policy_violation_executes_nothing_witness:
  "handle_call_tool demo_env (demo_server None []) ''read-query''
       (Some [(''query'', PStr ''UPDATE t SET x=1'')])
     = (Inr ''Error: Only SELECT queries are allowed for read-query'', demo_server None [])
   \<and> handle_call_tool demo_env (demo_server None []) ''write-query''
       (Some [(''query'', PStr ''SELECT * FROM t'')])
     = (Inr ''Error: SELECT queries are not allowed for write-query'', demo_server None [])
   \<and> handle_call_tool demo_env (demo_server None []) ''create-table''
       (Some [(''query'', PStr ''CREATE INDEX idx ON t(x)'')])
     = (Inr ''Error: Only CREATE TABLE statements are allowed'', demo_server None [])"
proof -
  have u: "\<not> startswith (leading_upper demo_env ''UPDATE t SET x=1'') ''SELECT''"
    by (simp add: leading_upper_def demo_env_def eval_string)
  have q: "startswith (leading_upper demo_env ''SELECT * FROM t'') ''SELECT''"
    by (simp add: leading_upper_def demo_env_def eval_string)
  have i: "\<not> startswith (leading_upper demo_env ''CREATE INDEX idx ON t(x)'') ''CREATE TABLE''"
    by (simp add: leading_upper_def demo_env_def eval_string)
  have a: "handle_call_tool demo_env (demo_server None []) ''read-query''
             (Some [(''query'', PStr ''UPDATE t SET x=1'')])
           = (Inr ''Error: Only SELECT queries are allowed for read-query'', demo_server None [])"
    using policy_violation_executes_nothing [of "[(''query'', PStr ''UPDATE t SET x=1'')]"
            "''UPDATE t SET x=1''" demo_env "demo_server None []"] u
    by simp
  have b: "handle_call_tool demo_env (demo_server None []) ''write-query''
             (Some [(''query'', PStr ''SELECT * FROM t'')])
           = (Inr ''Error: SELECT queries are not allowed for write-query'', demo_server None [])"
    using policy_violation_executes_nothing [of "[(''query'', PStr ''SELECT * FROM t'')]"
            "''SELECT * FROM t''" demo_env "demo_server None []"] q
    by simp
  have c: "handle_call_tool demo_env (demo_server None []) ''create-table''
             (Some [(''query'', PStr ''CREATE INDEX idx ON t(x)'')])
           = (Inr ''Error: Only CREATE TABLE statements are allowed'', demo_server None [])"
    using policy_violation_executes_nothing [of "[(''query'', PStr ''CREATE INDEX idx ON t(x)'')]"
            "''CREATE INDEX idx ON t(x)''" demo_env "demo_server None []"] i
    by simp
  show ?thesis
    using a b c by simp
qed

section \<open>Formatting the insights\<close>

lemma small_int_formats: "\<bar>i\<bar> < 10 \<Longrightarrow> py_format (PInt i) = Inr (str_int i)"
proof -
  assume small: "\<bar>i\<bar> < 10"
  have "(10::int) ^ 1 \<le> 10 ^ int_max_str_digits"
    by (rule power_increasing) (simp_all add: int_max_str_digits_def)
  then have "\<not> 10 ^ int_max_str_digits \<le> \<bar>i\<bar>"
    using small by simp
  then show ?thesis by simp
qed

lemma huge_int_raises: "py_format (PInt (10 ^ int_max_str_digits)) = Inl digits_limit_error"
  by simp

lemma bullet_lines_append:
  "bullet_lines xs = Inr ls \<Longrightarrow> bullet_lines ys = Inr ms \<Longrightarrow>
   bullet_lines (xs @ ys) = Inr (ls @ ms)"
  by (induction xs arbitrary: ls) (auto split: sum.splits)

lemma bullet_lines_strings: "list_all is_str xs \<Longrightarrow> \<exists>ls. bullet_lines xs = Inr ls"
proof (induction xs)
  case Nil
  show ?case by simp
next
  case (Cons v xs)
  then obtain ls where "bullet_lines xs = Inr ls" by auto
  moreover obtain t where "v = PStr t"
    using Cons.prems by (cases v) simp_all
  ultimately show ?case by simp
qed

lemma bulleted_strings: "list_all is_str xs \<Longrightarrow> \<exists>b. bulleted xs = Inr b"
  using bullet_lines_strings [of xs] by (auto simp add: bulleted_def)

lemma join_snoc2: "join sep (ys @ [a, b]) = join sep (ys @ [a]) @ sep @ b"
  by (induction sep ys rule: join.induct) simp_all

lemma join_snoc_ends: "\<exists>p. join sep (ys @ [a]) = p @ a"
proof (induction sep ys rule: join.induct)
  case (1 sep)
  show ?case by simp
next
  case (2 sep x)
  show ?case by simp
next
  case (3 sep x y ys)
  then obtain p where "join sep ((y # ys) @ [a]) = p @ a" by blast
  then have "join sep ((x # y # ys) @ [a]) = (x @ sep @ p) @ a" by simp
  then show ?case by blast
qed

lemma bulleted_snoc2:
  assumes "list_all is_str xs"
  shows "\<exists>a. bulleted (xs @ [PStr x, PStr y]) = Inr (a @ x @ ''\<newline>- '' @ y)"
proof -
  obtain ls where ls: "bullet_lines xs = Inr ls"
    using bullet_lines_strings [OF assms] by blast
  have "bullet_lines [PStr x, PStr y] = Inr [''- '' @ x, ''- '' @ y]"
    by simp
  then have lines: "bullet_lines (xs @ [PStr x, PStr y]) = Inr (ls @ [''- '' @ x, ''- '' @ y])"
    using bullet_lines_append [OF ls] by blast
  obtain p where p: "join ''\<newline>'' (ls @ [''- '' @ x]) = p @ ''- '' @ x"
    using join_snoc_ends [of "''\<newline>''" ls "''- '' @ x"] by blast
  have "join ''\<newline>'' (ls @ [''- '' @ x, ''- '' @ y])
          = join ''\<newline>'' (ls @ [''- '' @ x]) @ ''\<newline>'' @ ''- '' @ y"
    by (rule join_snoc2)
  also have "\<dots> = (p @ ''- '') @ x @ ''\<newline>- '' @ y"
    using p by simp
  finally show ?thesis
    using lines by (auto simp add: bulleted_def)
qed

lemma basic_memo_shape: "\<exists>h t. basic_memo b n = h @ b @ t"
  unfolding basic_memo_def by (metis append.assoc)

section \<open>Rendering the memo\<close>

lemma synthesize_memo_keeps:
  "insights (snd (synthesize_memo E s)) = insights s
   \<and> anthropic_api_key (snd (synthesize_memo E s)) = anthropic_api_key s"
  by (simp add: synthesize_memo_def split: option.splits prod.splits sum.splits)

lemma synthesize_memo_trace:
  "trace (snd (synthesize_memo E s)) =
     trace s
     @ (if insights s = [] then []
        else case bulleted (insights s) of
               Inl e \<Rightarrow> []
             | Inr b \<Rightarrow>
                 (case anthropic_api_key s of
                    None \<Rightarrow> []
                  | Some k \<Rightarrow> if k = [] then [] else [Collab_Request b]))"
  by (simp add: synthesize_memo_def split: option.splits prod.splits sum.splits)

lemma synthesize_memo_no_key:
  assumes "anthropic_api_key s = None"
  shows "synthesize_memo E s =
           (if insights s = []
            then Inr ''No business insights have been discovered yet.''
            else case bulleted (insights s) of
                   Inl e \<Rightarrow> Inl e
                 | Inr b \<Rightarrow> Inr (basic_memo b (length (insights s))), s)"
  using assms by (simp add: synthesize_memo_def split: sum.splits)

text \<open>
  With a key set and a summarization call that fails, the memo is the bulleted insights
  alone; the memo built without a key starts with the heading.
\<close>

theorem fallback_counterexample:
  "fst (synthesize_memo demo_env (demo_server (Some ''key'') [PStr ''X''])) = Inr ''- X''
   \<and> fst (synthesize_memo demo_env (demo_server None [PStr ''X''])) \<noteq> Inr ''- X''"
  by (simp add: eval_handler)

text \<open>
  C4, as \<open>_synthesize_memo\<close> has it. For a non-empty insight sequence that can be
  formatted into the bulleted text \<open>b\<close> (every sequence of strings can, lemma
  \<open>bulleted_strings\<close>) and a key that is set: when the summarization call raises an
  instance of \<open>Exception\<close> (or the key is empty, so that there is no client to call),
  the memo returned is \<open>b\<close>, the bulleted insights alone: the insight lines of the memo
  built without a key, without its heading and without its summary sentence. The error
  of the call is not propagated.
\<close>

theorem fallback_is_bulleted_insights:
  assumes "insights s \<noteq> []"
      and "bulleted (insights s) = Inr b"
      and "anthropic_api_key s = Some k"
      and "k = [] \<or> (fst (messages_create E b (world s)) = Inl e \<and> is_Exception e)"
  shows "fst (synthesize_memo E s) = Inr b
         \<and> (\<exists>heading summary.
               basic_memo b (length (insights s)) = heading @ b @ summary)"
proof -
  have "fst (synthesize_memo E s) = Inr b"
    using assms by (auto simp add: synthesize_memo_def split: prod.splits sum.splits)
  moreover have "\<exists>heading summary. basic_memo b (length (insights s)) = heading @ b @ summary"
    by (rule basic_memo_shape)
  ultimately show ?thesis by simp
qed

text \<open>The theorem with two insights, where the first request of the small world fails.\<close>

theorem fallback_is_bulleted_insights_witness:
  "fst (synthesize_memo demo_env (demo_server (Some ''key'') [PStr ''X'', PStr ''Y'']))
     = Inr ''- X\<newline>- Y''"
proof -
  let ?s = "demo_server (Some ''key'') [PStr ''X'', PStr ''Y'']"
  have a: "insights ?s \<noteq> []" and c: "anthropic_api_key ?s = Some ''key''"
    by (simp_all add: demo_server_def)
  have b: "bulleted (insights ?s) = Inr ''- X\<newline>- Y''"
    by (simp add: demo_server_def bulleted_def)
  have d: "''key'' = [] \<or> (fst (messages_create demo_env ''- X\<newline>- Y'' (world ?s))
                              = Inl (Other_Exception ''Connection error.'')
                            \<and> is_Exception (Other_Exception ''Connection error.''))"
    by (simp add: demo_server_def demo_env_def)
  show ?thesis
    using fallback_is_bulleted_insights [OF a b c d] by simp
qed

text \<open>
  Two renderings of the same insight sequence, with a key set and nothing appended in
  between: the first request fails and the memo is the bulleted insights, the second
  request is answered and the memo is the answer.
\<close>

theorem render_twice_counterexample:
  "fst (synthesize_memo demo_env (demo_server (Some ''key'') [PStr ''X''])) = Inr ''- X''
   \<and> fst (synthesize_memo demo_env
             (snd (synthesize_memo demo_env (demo_server (Some ''key'') [PStr ''X'']))))
       = Inr ''Quarterly memo''
   \<and> insights (snd (synthesize_memo demo_env (demo_server (Some ''key'') [PStr ''X''])))
       = insights (demo_server (Some ''key'') [PStr ''X''])"
  by (simp add: eval_handler eval_string)

text \<open>
  C9, as \<open>_synthesize_memo\<close> has it. When \<open>anthropic_api_key\<close> is \<open>None\<close>, the result of
  rendering is a function of the insight sequence alone, whatever the collaborators
  and the world are: the fixed sentence for an empty sequence, the memo \<open>basic_memo\<close>
  of the bulleted insights for a sequence that can be formatted (every sequence of
  strings can), and otherwise the error of the formatting. Rendering changes nothing
  in the state, and a second rendering gives the same result.
  (With a key set the text is what the summarization service answers at that call.)
\<close>

theorem render_pure_without_collaborator:
  assumes "anthropic_api_key s = None" and "anthropic_api_key s' = None"
      and "insights s' = insights s"
  shows "fst (synthesize_memo E' s') = fst (synthesize_memo E s)
         \<and> snd (synthesize_memo E s) = s
         \<and> fst (synthesize_memo E (snd (synthesize_memo E s))) = fst (synthesize_memo E s)
         \<and> (insights s = [] \<longrightarrow>
              fst (synthesize_memo E s) = Inr ''No business insights have been discovered yet.'')
         \<and> (insights s \<noteq> [] \<and> bulleted (insights s) = Inr b \<longrightarrow>
              fst (synthesize_memo E s) = Inr (basic_memo b (length (insights s))))
         \<and> (list_all is_str (insights s) \<longrightarrow> (\<exists>memo. fst (synthesize_memo E s) = Inr memo))"
proof -
  have strings: "\<exists>memo. fst (synthesize_memo E s) = Inr memo" if "list_all is_str (insights s)"
    using bulleted_strings [OF that] by (auto simp add: synthesize_memo_no_key [OF assms(1)])
  show ?thesis
    using strings
    by (simp add: synthesize_memo_no_key [OF assms(1)] synthesize_memo_no_key [OF assms(2)]
          assms(1,3) cong: sum.case_cong)
qed

text \<open>The theorem at one insight, in two different worlds.\<close>

theorem render_pure_without_collaborator_witness:
  "fst (synthesize_memo failing_session_env (demo_server None [PStr ''X'']))
     = fst (synthesize_memo demo_env (demo_server None [PStr ''X'']))
   \<and> snd (synthesize_memo demo_env (demo_server None [PStr ''X''])) = demo_server None [PStr ''X'']
   \<and> fst (synthesize_memo demo_env (demo_server None [PStr ''X'']))
       = Inr (basic_memo ''- X'' 1)"
proof -
  let ?s = "demo_server None [PStr ''X'']"
  have a: "anthropic_api_key ?s = None" and c: "insights ?s = insights ?s"
    by (simp_all add: demo_server_def)
  have b: "insights ?s \<noteq> [] \<and> bulleted (insights ?s) = Inr ''- X''"
    by (simp add: demo_server_def bulleted_def)
  show ?thesis
    using render_pure_without_collaborator [OF a a c, of failing_session_env demo_env "''- X''"] b
    by (simp add: demo_server_def)
qed

section \<open>Appending an insight\<close>

text \<open>The accepted \<open>append-insight\<close> call, step by step.\<close>

lemma append_insight_try:
  assumes "map_of d ''insight'' = Some v"
  shows "handle_call_tool_try E s ''append-insight'' (Some d) =
           (case synthesize_memo E
                   (s\<lparr>insights := insights s @ [v], trace := trace s @ [Appended v]\<rparr>) of
              (Inl e, s1) \<Rightarrow> (Inl e, s1)
            | (Inr memo, s1) \<Rightarrow>
                (case send_resource_updated E ''memo://insights'' (world s1) of
                   (Inl e, w) \<Rightarrow>
                     (Inl e, s1\<lparr>world := w, trace := trace s1 @ [Notify ''memo://insights'']\<rparr>)
                 | (Inr u, w) \<Rightarrow>
                     (Inr ''Insight added to memo'',
                      s1\<lparr>world := w, trace := trace s1 @ [Notify ''memo://insights'']\<rparr>)))"
  using assms map_of_Some_not_Nil [OF assms]
  by (simp add: handle_call_tool_try_def)

lemma append_insight_rejected:
  assumes "py_not arguments \<or> \<not> py_in ''insight'' arguments"
  shows "handle_call_tool_try E s ''append-insight'' arguments
           = (Inl (ValueError ''Missing insight argument''), s)"
  using assms by (simp add: handle_call_tool_try_def)

text \<open>
  The state after an accepted call is the state after the memo synthesis, with the
  world the session left and, when the synthesis returned, the notification in the
  trace.
\<close>

lemma append_insight_try_snd:
  assumes "map_of d ''insight'' = Some v"
  shows "\<exists>w. snd (handle_call_tool E s ''append-insight'' (Some d)) =
           (snd (synthesize_memo E
                  (s\<lparr>insights := insights s @ [v], trace := trace s @ [Appended v]\<rparr>)))
             \<lparr>world := w,
              trace := trace (snd (synthesize_memo E
                  (s\<lparr>insights := insights s @ [v], trace := trace s @ [Appended v]\<rparr>)))
                @ (case fst (synthesize_memo E
                     (s\<lparr>insights := insights s @ [v], trace := trace s @ [Appended v]\<rparr>)) of
                     Inl e \<Rightarrow> []
                   | Inr memo \<Rightarrow> [Notify ''memo://insights''])\<rparr>"
proof -
  let ?s0 = "s\<lparr>insights := insights s @ [v], trace := trace s @ [Appended v]\<rparr>"
  obtain m s1 where s1: "synthesize_memo E ?s0 = (m, s1)"
    by (cases "synthesize_memo E ?s0")
  obtain r w where w: "send_resource_updated E ''memo://insights'' (world s1) = (r, w)"
    by (cases "send_resource_updated E ''memo://insights'' (world s1)")
  show ?thesis
  proof (cases m)
    case (Inl e)
    then have "snd (handle_call_tool E s ''append-insight'' (Some d)) = s1"
      by (simp add: handle_call_tool_snd append_insight_try [OF assms] s1)
    then have "snd (handle_call_tool E s ''append-insight'' (Some d))
                 = s1\<lparr>world := world s1, trace := trace s1 @ []\<rparr>"
      by simp
    then show ?thesis
      using Inl s1 by (intro exI [of _ "world s1"]) simp
  next
    case (Inr memo)
    then have "snd (handle_call_tool E s ''append-insight'' (Some d))
                 = s1\<lparr>world := w, trace := trace s1 @ [Notify ''memo://insights'']\<rparr>"
      by (cases r) (simp_all add: handle_call_tool_snd append_insight_try [OF assms] s1 w)
    then show ?thesis
      using Inr s1 by (intro exI [of _ w]) simp
  qed
qed

lemma append_insight_state:
  assumes "map_of d ''insight'' = Some v"
  shows "insights (snd (handle_call_tool E s ''append-insight'' (Some d))) = insights s @ [v]
         \<and> anthropic_api_key (snd (handle_call_tool E s ''append-insight'' (Some d)))
             = anthropic_api_key s"
proof -
  let ?s0 = "s\<lparr>insights := insights s @ [v], trace := trace s @ [Appended v]\<rparr>"
  obtain w where "snd (handle_call_tool E s ''append-insight'' (Some d)) =
      (snd (synthesize_memo E ?s0))
        \<lparr>world := w,
         trace := trace (snd (synthesize_memo E ?s0))
           @ (case fst (synthesize_memo E ?s0) of
                Inl e \<Rightarrow> [] | Inr memo \<Rightarrow> [Notify ''memo://insights''])\<rparr>"
    using append_insight_try_snd [OF assms, of E s] by blast
  then show ?thesis
    using synthesize_memo_keeps [of E ?s0] by simp
qed

lemma append_insight_trace:
  assumes "map_of d ''insight'' = Some v"
  shows "trace (snd (handle_call_tool E s ''append-insight'' (Some d))) =
           trace s @ [Appended v]
           @ (case bulleted (insights s @ [v]) of
                Inl e \<Rightarrow> []
              | Inr b \<Rightarrow>
                  (case anthropic_api_key s of
                     None \<Rightarrow> []
                   | Some k \<Rightarrow> if k = [] then [] else [Collab_Request b]))
           @ (case fst (synthesize_memo E
                  (s\<lparr>insights := insights s @ [v], trace := trace s @ [Appended v]\<rparr>)) of
                Inl e \<Rightarrow> []
              | Inr memo \<Rightarrow> [Notify ''memo://insights''])"
proof -
  let ?s0 = "s\<lparr>insights := insights s @ [v], trace := trace s @ [Appended v]\<rparr>"
  obtain w where "snd (handle_call_tool E s ''append-insight'' (Some d)) =
      (snd (synthesize_memo E ?s0))
        \<lparr>world := w,
         trace := trace (snd (synthesize_memo E ?s0))
           @ (case fst (synthesize_memo E ?s0) of
                Inl e \<Rightarrow> [] | Inr memo \<Rightarrow> [Notify ''memo://insights''])\<rparr>"
    using append_insight_try_snd [OF assms, of E s] by blast
  then show ?thesis
    using synthesize_memo_trace [of E ?s0] by (simp cong: sum.case_cong)
qed

text \<open>
  An accepted \<open>append-insight\<close> with a key set: the handler calls \<open>_synthesize_memo\<close>
  after the append, and the request to the summarization service is made before the
  notification.
\<close>

theorem append_insight_requests_counterexample:
  "trace (snd (handle_call_tool demo_env (demo_server (Some ''key'') []) ''append-insight''
                 (Some [(''insight'', PStr ''X'')])))
     = [Appended (PStr ''X''), Collab_Request ''- X'', Notify ''memo://insights'']"
  by (simp add: eval_handler)

text \<open>
  C7, as the handler has it. An \<open>append-insight\<close> call makes no request to the
  summarization service when its arguments are rejected. An accepted call, which
  appends the value \<open>v\<close>, makes no request when \<open>anthropic_api_key\<close> is \<open>None\<close> or empty,
  nor when the insights (with \<open>v\<close>) cannot be formatted; otherwise it makes exactly one,
  through \<open>_synthesize_memo\<close>, whose text the handler then drops. Insights that are all
  strings can always be formatted. So the service is requested during a rendering and
  during such an append.
\<close>

theorem append_insight_requests:
  "(py_not arguments \<or> \<not> py_in ''insight'' arguments \<longrightarrow>
      length (filter is_collab_request
                (trace (snd (handle_call_tool E s ''append-insight'' arguments))))
        = length (filter is_collab_request (trace s)))
   \<and> (map_of d ''insight'' = Some v \<longrightarrow>
      length (filter is_collab_request
                (trace (snd (handle_call_tool E s ''append-insight'' (Some d)))))
        = length (filter is_collab_request (trace s))
          + (case anthropic_api_key s of
               None \<Rightarrow> 0
             | Some k \<Rightarrow>
                 if k = [] then 0
                 else (case bulleted (insights s @ [v]) of Inl e \<Rightarrow> 0 | Inr b \<Rightarrow> 1)))
   \<and> (list_all is_str (insights s) \<and> is_str v \<longrightarrow> (\<exists>b. bulleted (insights s @ [v]) = Inr b))"
proof -
  have rejected: "length (filter is_collab_request
                (trace (snd (handle_call_tool E s ''append-insight'' arguments))))
        = length (filter is_collab_request (trace s))"
    if "py_not arguments \<or> \<not> py_in ''insight'' arguments"
    using that by (simp add: handle_call_tool_snd append_insight_rejected)
  have accepted: "length (filter is_collab_request
                (trace (snd (handle_call_tool E s ''append-insight'' (Some d)))))
        = length (filter is_collab_request (trace s))
          + (case anthropic_api_key s of
               None \<Rightarrow> 0
             | Some k \<Rightarrow>
                 if k = [] then 0
                 else (case bulleted (insights s @ [v]) of Inl e \<Rightarrow> 0 | Inr b \<Rightarrow> 1))"
    if "map_of d ''insight'' = Some v"
    by (simp add: append_insight_trace [OF that] split: sum.splits option.splits)
  have strings: "\<exists>b. bulleted (insights s @ [v]) = Inr b"
    if "list_all is_str (insights s) \<and> is_str v"
    using that by (intro bulleted_strings) simp
  show ?thesis
    using rejected accepted strings by blast
qed

text \<open>The theorem without a key (no request) and with a key (one request).\<close>

theorem append_insight_requests_witness:
  "length (filter is_collab_request
     (trace (snd (handle_call_tool demo_env (demo_server None []) ''append-insight''
                   (Some [(''insight'', PStr ''X'')]))))) = 0
   \<and> length (filter is_collab_request
     (trace (snd (handle_call_tool demo_env (demo_server (Some ''key'') []) ''append-insight''
                   (Some [(''insight'', PStr ''X'')]))))) = 1"
proof -
  have m: "map_of [(''insight'', PStr ''X'')] ''insight'' = Some (PStr ''X'')"
    by simp
  have b: "bulleted ([] @ [PStr ''X'']) = Inr ''- X''"
    by (simp add: bulleted_def)
  show ?thesis
    using append_insight_requests [of "Some [(''insight'', PStr ''X'')]" demo_env
            "demo_server None []" "[(''insight'', PStr ''X'')]" "PStr ''X''"]
          append_insight_requests [of "Some [(''insight'', PStr ''X'')]" demo_env
            "demo_server (Some ''key'') []" "[(''insight'', PStr ''X'')]" "PStr ''X''"]
          m b
    by (simp add: demo_server_def)
qed

text \<open>
  An \<open>append-insight\<close> call whose notification is cancelled: the call raises the
  \<open>CancelledError\<close> instead of returning an error text; the insight is appended.
\<close>

theorem cancelled_append_counterexample:
  "fst (handle_call_tool cancelled_session_env (demo_server None [PStr ''W'']) ''append-insight''
          (Some [(''insight'', PStr ''X'')]))
     = Inl (Base_Exception ''CancelledError'' [])
   \<and> insights (snd (handle_call_tool cancelled_session_env (demo_server None [PStr ''W''])
                       ''append-insight'' (Some [(''insight'', PStr ''X'')])))
     = [PStr ''W'', PStr ''X'']"
  by (simp add: eval_handler)

text \<open>
  C10, as the handler has it. For an \<open>append-insight\<close> call with an \<open>insight\<close>
  argument, the value is appended to the insight sequence before the memo is
  synthesized and the notification is sent. When the synthesis returns and sending
  raises \<open>e\<close>: if \<open>e\<close> is an instance of \<open>Exception\<close> the call returns the error text of
  \<open>e\<close>, otherwise the call raises \<open>e\<close>; in both cases the insight sequence of the state
  after the call ends with the new value, and the trace shows the append before the
  notification.
\<close>

theorem append_insight_not_atomic:
  assumes "map_of d ''insight'' = Some v"
      and "fst (synthesize_memo E
                 (s\<lparr>insights := insights s @ [v], trace := trace s @ [Appended v]\<rparr>)) = Inr memo"
      and "fst (send_resource_updated E ''memo://insights''
                 (world (snd (synthesize_memo E
                    (s\<lparr>insights := insights s @ [v], trace := trace s @ [Appended v]\<rparr>)))))
             = Inl e"
  shows "fst (handle_call_tool E s ''append-insight'' (Some d)) = except_clauses e
         \<and> (is_Exception e \<longrightarrow>
              (\<exists>msg. fst (handle_call_tool E s ''append-insight'' (Some d)) = Inr msg))
         \<and> (\<not> is_Exception e \<longrightarrow>
              fst (handle_call_tool E s ''append-insight'' (Some d)) = Inl e)
         \<and> insights (snd (handle_call_tool E s ''append-insight'' (Some d))) = insights s @ [v]
         \<and> (\<exists>evs. trace (snd (handle_call_tool E s ''append-insight'' (Some d)))
                     = trace s @ [Appended v] @ evs @ [Notify ''memo://insights''])"
proof -
  let ?s0 = "s\<lparr>insights := insights s @ [v], trace := trace s @ [Appended v]\<rparr>"
  obtain s1 where s1: "synthesize_memo E ?s0 = (Inr memo, s1)"
    using assms(2) by (cases "synthesize_memo E ?s0") simp
  obtain w where w: "send_resource_updated E ''memo://insights'' (world s1) = (Inl e, w)"
    using assms(3) s1 by (cases "send_resource_updated E ''memo://insights'' (world s1)") simp
  have body: "handle_call_tool_try E s ''append-insight'' (Some d) =
               (Inl e, s1\<lparr>world := w, trace := trace s1 @ [Notify ''memo://insights'']\<rparr>)"
    by (simp add: append_insight_try [OF assms(1)] s1 w)
  have call: "fst (handle_call_tool E s ''append-insight'' (Some d)) = except_clauses e"
    by (simp add: handle_call_tool_raised [OF body])
  have caught: "\<exists>msg. except_clauses e = Inr msg" if "is_Exception e"
    using that by (cases e) (simp_all add: except_clauses_def)
  have escaped: "except_clauses e = Inl e" if "\<not> is_Exception e"
    using that by (cases e) (simp_all add: except_clauses_def)
  have tr: "\<exists>evs. trace (snd (handle_call_tool E s ''append-insight'' (Some d)))
                     = trace s @ [Appended v] @ evs @ [Notify ''memo://insights'']"
    using assms(2) by (simp add: append_insight_trace [OF assms(1)])
  show ?thesis
    using call caught escaped tr append_insight_state [OF assms(1), of E s]
    by simp
qed

text \<open>The theorem in the world whose session fails to send.\<close>

theorem append_insight_not_atomic_witness:
  "fst (handle_call_tool failing_session_env (demo_server None []) ''append-insight''
          (Some [(''insight'', PStr ''X'')]))
     = Inr ''Error: session closed''
   \<and> insights (snd (handle_call_tool failing_session_env (demo_server None []) ''append-insight''
                       (Some [(''insight'', PStr ''X'')])))
     = [PStr ''X'']"
proof -
  let ?s0 = "(demo_server None [])\<lparr>insights := insights (demo_server None []) @ [PStr ''X''],
               trace := trace (demo_server None []) @ [Appended (PStr ''X'')]\<rparr>"
  have m: "map_of [(''insight'', PStr ''X'')] ''insight'' = Some (PStr ''X'')"
    by simp
  have y: "fst (synthesize_memo failing_session_env ?s0) = Inr (basic_memo ''- X'' 1)"
    by (simp add: synthesize_memo_def demo_server_def bulleted_def)
  have n: "fst (send_resource_updated failing_session_env ''memo://insights''
                 (world (snd (synthesize_memo failing_session_env ?s0))))
             = Inl (Other_Exception ''session closed'')"
    by (simp add: failing_session_env_def demo_env_def)
  show ?thesis
    using append_insight_not_atomic [OF m y n]
    by (simp add: except_clauses_def demo_server_def)
qed

text \<open>
  An insight that cannot be formatted (an integer beyond the conversion limit): the
  value is appended, the memo synthesis raises, the handler returns the error as a
  text, and no notification is sent.
\<close>

lemma huge_insight_example:
  "handle_call_tool demo_env (demo_server None []) ''append-insight''
       (Some [(''insight'', PInt (10 ^ int_max_str_digits))])
     = (Inr (''Error: '' @ exn_str digits_limit_error),
        \<lparr>anthropic_api_key = None, insights = [PInt (10 ^ int_max_str_digits)], world = 0,
         trace = [Appended (PInt (10 ^ int_max_str_digits))]\<rparr>)"
  by (simp add: eval_handler digits_limit_error_def)

text \<open>
  C8. Starting from any sequence of string insights, with no key set (the rendering
  without the summarization service): after \<open>append-insight\<close> with \<open>x\<close> and then
  \<open>append-insight\<close> with \<open>y\<close>, rendering returns a memo that contains \<open>x\<close>, then a line
  break and the bullet, then \<open>y\<close>: both insights, \<open>x\<close> before \<open>y\<close>.
\<close>

theorem append_order_preserved:
  assumes "anthropic_api_key s = None"
      and "list_all is_str (insights s)"
      and "map_of d1 ''insight'' = Some (PStr x)"
      and "map_of d2 ''insight'' = Some (PStr y)"
  shows "\<exists>a c. fst (synthesize_memo E
                       (snd (handle_call_tool E
                               (snd (handle_call_tool E s ''append-insight'' (Some d1)))
                               ''append-insight'' (Some d2))))
                = Inr (a @ x @ ''\<newline>- '' @ y @ c)"
proof -
  let ?s1 = "snd (handle_call_tool E s ''append-insight'' (Some d1))"
  let ?s2 = "snd (handle_call_tool E ?s1 ''append-insight'' (Some d2))"
  have ins: "insights ?s2 = insights s @ [PStr x, PStr y]"
    using append_insight_state [OF assms(3), of E s] append_insight_state [OF assms(4), of E ?s1]
    by simp
  have key: "anthropic_api_key ?s2 = None"
    using append_insight_state [OF assms(3), of E s] append_insight_state [OF assms(4), of E ?s1]
      assms(1)
    by simp
  obtain a where a: "bulleted (insights s @ [PStr x, PStr y]) = Inr (a @ x @ ''\<newline>- '' @ y)"
    using bulleted_snoc2 [OF assms(2)] by blast
  have memo: "fst (synthesize_memo E ?s2)
                = Inr (basic_memo (a @ x @ ''\<newline>- '' @ y) (length (insights ?s2)))"
    using ins a by (simp add: synthesize_memo_no_key [OF key])
  obtain h t where "basic_memo (a @ x @ ''\<newline>- '' @ y) (length (insights ?s2))
                      = h @ (a @ x @ ''\<newline>- '' @ y) @ t"
    using basic_memo_shape by blast
  then have "fst (synthesize_memo E ?s2) = Inr ((h @ a) @ x @ ''\<newline>- '' @ y @ t)"
    using memo by simp
  then show ?thesis by blast
qed

text \<open>The theorem at the insights \<open>X\<close> and \<open>Y\<close>, appended to a memo that holds \<open>W\<close>.\<close>

theorem append_order_preserved_witness:
  "\<exists>a c. fst (synthesize_memo demo_env
         (snd (handle_call_tool demo_env
                 (snd (handle_call_tool demo_env (demo_server None [PStr ''W''])
                         ''append-insight'' (Some [(''insight'', PStr ''X'')])))
                 ''append-insight'' (Some [(''insight'', PStr ''Y'')]))))
     = Inr (a @ ''X'' @ ''\<newline>- '' @ ''Y'' @ c)"
proof -
  have key: "anthropic_api_key (demo_server None [PStr ''W'']) = None"
    by (simp add: demo_server_def)
  have strs: "list_all is_str (insights (demo_server None [PStr ''W'']))"
    by (simp add: demo_server_def)
  have x: "map_of [(''insight'', PStr ''X'')] ''insight'' = Some (PStr ''X'')"
    by simp
  have y: "map_of [(''insight'', PStr ''Y'')] ''insight'' = Some (PStr ''Y'')"
    by simp
  show ?thesis
    by (rule append_order_preserved [OF key strs x y])
qed

section \<open>Missing and ill-typed arguments\<close>

lemma missing_query_try:
  assumes "name = ''read-query'' \<or> name = ''write-query'' \<or> name = ''create-table''"
      and "\<not> py_in ''query'' arguments"
  shows "handle_call_tool_try E s name arguments =
           (Inl (if py_not arguments then ValueError ''Missing arguments''
                 else KeyError ''query''), s)"
proof (cases arguments)
  case None
  with assms(1) show ?thesis
    by (auto simp add: handle_call_tool_try_def)
next
  case (Some d)
  with assms show ?thesis
    by (auto simp add: handle_call_tool_try_def)
qed

lemma missing_table_name_try:
  assumes "\<not> py_in ''table_name'' arguments"
  shows "handle_call_tool_try E s ''describe-table'' arguments
           = (Inl (ValueError ''Missing table_name argument''), s)"
  using assms by (simp add: handle_call_tool_try_def)

lemma missing_insight_try:
  assumes "\<not> py_in ''insight'' arguments"
  shows "handle_call_tool_try E s ''append-insight'' arguments
           = (Inl (ValueError ''Missing insight argument''), s)"
  using assms by (simp add: handle_call_tool_try_def)

lemma non_string_query_try:
  assumes "name = ''read-query'' \<or> name = ''write-query'' \<or> name = ''create-table''"
      and "getitem arguments ''query'' = Inr v" and "\<not> is_str v"
  shows "handle_call_tool_try E s name arguments = (Inl (no_strip v), s)"
proof -
  obtain d where d: "arguments = Some d" "map_of d ''query'' = Some v"
    using assms(2) by (cases arguments) (auto split: option.splits)
  then have "d \<noteq> []" by auto
  with assms(1,3) d show ?thesis
    by (cases v) (auto simp add: handle_call_tool_try_def)
qed

lemma describe_table_try:
  assumes "map_of d ''table_name'' = Some v"
  shows "handle_call_tool_try E s ''describe-table'' (Some d) =
           (case py_format v of
              Inl e \<Rightarrow> (Inl e, s)
            | Inr q \<Rightarrow>
                text_content E (execute_query E (''PRAGMA table_info('' @ q @ '')'') s))"
  using assms map_of_Some_not_Nil [OF assms] by (simp add: handle_call_tool_try_def)

lemma required_cases:
  assumes "t \<in> set handle_list_tools" and "f \<in> set (required t)"
  shows "(f = ''query'' \<and> (tool_name t = ''read-query'' \<or> tool_name t = ''write-query''
                              \<or> tool_name t = ''create-table''))
         \<or> (f = ''table_name'' \<and> tool_name t = ''describe-table'')
         \<or> (f = ''insight'' \<and> tool_name t = ''append-insight'')"
  using assms by (auto simp add: handle_list_tools_def)

lemma missing_required_rejected:
  assumes t: "t \<in> set handle_list_tools" and f: "f \<in> set (required t)"
      and missing: "\<not> py_in f arguments"
  shows "\<exists>msg. handle_call_tool E s (tool_name t) arguments = (Inr (''Error: '' @ msg), s)"
proof -
  consider (q) "f = ''query''" "tool_name t = ''read-query'' \<or> tool_name t = ''write-query''
                              \<or> tool_name t = ''create-table''"
    | (tn) "f = ''table_name''" "tool_name t = ''describe-table''"
    | (i) "f = ''insight''" "tool_name t = ''append-insight''"
    using required_cases [OF t f] by blast
  then show ?thesis
  proof cases
    case q
    show ?thesis
      using handle_call_tool_raised [OF missing_query_try [OF q(2), of arguments E s]] missing q(1)
      by (cases "py_not arguments") (simp_all add: except_clauses_def)
  next
    case tn
    show ?thesis
      using handle_call_tool_raised [OF missing_table_name_try [of arguments E s]] missing tn
      by (simp add: except_clauses_def)
  next
    case i
    show ?thesis
      using handle_call_tool_raised [OF missing_insight_try [of arguments E s]] missing i
      by (simp add: except_clauses_def)
  qed
qed

text \<open>
  A required field bound to an integer: \<open>describe-table\<close> formats the value into its
  statement and executes it, and \<open>append-insight\<close> appends the value to the memo.
\<close>

theorem unchecked_type_counterexample:
  "handle_call_tool demo_env (demo_server None []) ''describe-table''
       (Some [(''table_name'', PInt 5)])
     = (Inr ''[]'',
        \<lparr>anthropic_api_key = None, insights = [], world = 0,
         trace = [Executed ''PRAGMA table_info(5)'']\<rparr>)
   \<and> handle_call_tool demo_env (demo_server None []) ''append-insight''
       (Some [(''insight'', PInt 5)])
     = (Inr ''Insight added to memo'',
        \<lparr>anthropic_api_key = None, insights = [PInt 5], world = 0,
         trace = [Appended (PInt 5), Notify ''memo://insights'']\<rparr>)"
  by (simp add: eval_handler eval_string small_int_formats str_int_def str_nat.simps
        del: py_format.simps(2))

text \<open>
  C6, as the handler has it. For every tool of the catalog and every arguments value, a
  call that lacks a field the tool requires returns an error text and leaves the state
  as it was (no statement, no memo change); \<open>describe-table\<close> without \<open>table_name\<close>
  returns \<open>Error: Missing table_name argument\<close>. A \<open>query\<close> that is not a string makes
  \<open>read-query\<close>, \<open>write-query\<close> and \<open>create-table\<close> return the error text of the failed
  \<open>strip\<close>, with the state as it was. The handler does not check the type of
  \<open>table_name\<close> nor of \<open>insight\<close>: \<open>describe-table\<close> formats the value and runs its
  statement with the text (when the value cannot be formatted, it returns the error
  text of the formatting and runs nothing), and \<open>append-insight\<close> appends the value.
\<close>

theorem missing_argument_rejected:
  "(t \<in> set handle_list_tools \<and> f \<in> set (required t) \<and> \<not> py_in f arguments \<longrightarrow>
      (\<exists>msg. handle_call_tool E s (tool_name t) arguments = (Inr (''Error: '' @ msg), s)))
   \<and> (\<not> py_in ''table_name'' arguments \<longrightarrow>
        handle_call_tool E s ''describe-table'' arguments
          = (Inr ''Error: Missing table_name argument'', s))
   \<and> ((name = ''read-query'' \<or> name = ''write-query'' \<or> name = ''create-table'')
        \<and> getitem arguments ''query'' = Inr v \<and> \<not> is_str v \<longrightarrow>
        handle_call_tool E s name arguments = (Inr (''Error: '' @ exn_str (no_strip v)), s))
   \<and> (map_of d ''table_name'' = Some v \<and> py_format v = Inr q \<longrightarrow>
        handle_call_tool_try E s ''describe-table'' (Some d) =
          text_content E (execute_query E (''PRAGMA table_info('' @ q @ '')'') s))
   \<and> (map_of d ''table_name'' = Some v \<and> py_format v = Inl e \<longrightarrow>
        handle_call_tool E s ''describe-table'' (Some d) = (Inr (''Error: '' @ exn_str e), s))
   \<and> (map_of d ''insight'' = Some v \<longrightarrow>
        insights (snd (handle_call_tool E s ''append-insight'' (Some d))) = insights s @ [v])"
proof -
  have a: "\<exists>msg. handle_call_tool E s (tool_name t) arguments = (Inr (''Error: '' @ msg), s)"
    if "t \<in> set handle_list_tools" "f \<in> set (required t)" "\<not> py_in f arguments"
    using missing_required_rejected [OF that] .
  have b: "handle_call_tool E s ''describe-table'' arguments
          = (Inr ''Error: Missing table_name argument'', s)" if "\<not> py_in ''table_name'' arguments"
    using handle_call_tool_raised [OF missing_table_name_try [OF that, of E s]]
    by (simp add: except_clauses_def)
  have c: "handle_call_tool E s name arguments = (Inr (''Error: '' @ exn_str (no_strip v)), s)"
    if "name = ''read-query'' \<or> name = ''write-query'' \<or> name = ''create-table''"
       "getitem arguments ''query'' = Inr v" "\<not> is_str v"
    using handle_call_tool_raised [OF non_string_query_try [OF that, of E s]]
    by (simp add: no_strip_def except_clauses_def)
  have x: "handle_call_tool_try E s ''describe-table'' (Some d) =
          text_content E (execute_query E (''PRAGMA table_info('' @ q @ '')'') s)"
    if "map_of d ''table_name'' = Some v" "py_format v = Inr q"
    using that by (simp add: describe_table_try)
  have y: "handle_call_tool E s ''describe-table'' (Some d) = (Inr (''Error: '' @ exn_str e), s)"
    if "map_of d ''table_name'' = Some v" "py_format v = Inl e"
  proof -
    have "handle_call_tool_try E s ''describe-table'' (Some d) = (Inl e, s)"
      using that by (simp add: describe_table_try)
    moreover have "e = digits_limit_error"
      using that(2) by (rule py_format_raises)
    ultimately show ?thesis
      by (simp add: handle_call_tool_def except_clauses_def digits_limit_error_def)
  qed
  have z: "insights (snd (handle_call_tool E s ''append-insight'' (Some d))) = insights s @ [v]"
    if "map_of d ''insight'' = Some v"
    using append_insight_state [OF that, of E s] by simp
  show ?thesis
    using a b c x y z by blast
qed

text \<open>
  The theorem at \<open>write-query\<close> without arguments, \<open>describe-table\<close> with an empty
  dictionary, \<open>read-query\<close> with an integer query, \<open>describe-table\<close> with a list that
  cannot be formatted, and \<open>append-insight\<close> with an integer.
\<close>

theorem missing_argument_rejected_witness:
  "(\<exists>msg. handle_call_tool demo_env (demo_server None []) ''write-query'' None
            = (Inr (''Error: '' @ msg), demo_server None []))
   \<and> handle_call_tool demo_env (demo_server None []) ''describe-table'' (Some [])
       = (Inr ''Error: Missing table_name argument'', demo_server None [])
   \<and> handle_call_tool demo_env (demo_server None []) ''read-query'' (Some [(''query'', PInt 5)])
       = (Inr (''Error: '' @ quoted ''int'' @ '' object has no attribute '' @ quoted ''strip''),
          demo_server None [])
   \<and> handle_call_tool demo_env (demo_server None []) ''describe-table''
         (Some [(''table_name'', POther ''list'' None)])
       = (Inr (''Error: '' @ exn_str digits_limit_error), demo_server None [])
   \<and> insights (snd (handle_call_tool demo_env (demo_server None []) ''append-insight''
                       (Some [(''insight'', PInt 5)]))) = [PInt 5]"
proof -
  let ?wq = "\<lparr>tool_name = ''write-query'',
               description = ''Execute an INSERT, UPDATE, or DELETE query on the SQLite database'',
               properties = [(''query'', ''string'')], required = [''query'']\<rparr>"
  have tool: "?wq \<in> set handle_list_tools \<and> ''query'' \<in> set (required ?wq)
              \<and> \<not> py_in ''query'' None \<and> tool_name ?wq = ''write-query''"
    by (simp add: handle_list_tools_def)
  have a: "\<exists>msg. handle_call_tool demo_env (demo_server None []) ''write-query'' None
            = (Inr (''Error: '' @ msg), demo_server None [])"
    using missing_argument_rejected [of ?wq "''query''" None demo_env "demo_server None []"
            "[]" "PNone" "[]" "[]" "ValueError []"] tool
    by simp
  have b: "handle_call_tool demo_env (demo_server None []) ''describe-table'' (Some [])
       = (Inr ''Error: Missing table_name argument'', demo_server None [])"
    using missing_argument_rejected [of ?wq "''query''" "Some []" demo_env "demo_server None []"
            "[]" "PNone" "[]" "[]" "ValueError []"]
    by simp
  have c: "handle_call_tool demo_env (demo_server None []) ''read-query'' (Some [(''query'', PInt 5)])
       = (Inr (''Error: '' @ exn_str (no_strip (PInt 5))), demo_server None [])"
    using missing_argument_rejected [of ?wq "''query''" "Some [(''query'', PInt 5)]" demo_env
            "demo_server None []" "''read-query''" "PInt 5" "[]" "[]" "ValueError []"]
    by simp
  have d: "handle_call_tool demo_env (demo_server None []) ''describe-table''
         (Some [(''table_name'', POther ''list'' None)])
       = (Inr (''Error: '' @ exn_str digits_limit_error), demo_server None [])"
    using missing_argument_rejected [of ?wq "''query''" None demo_env "demo_server None []"
            "[]" "POther ''list'' None" "[(''table_name'', POther ''list'' None)]" "[]"
            digits_limit_error]
    by simp
  have e: "insights (snd (handle_call_tool demo_env (demo_server None []) ''append-insight''
                       (Some [(''insight'', PInt 5)]))) = [PInt 5]"
    using missing_argument_rejected [of ?wq "''query''" None demo_env "demo_server None []"
            "[]" "PInt 5" "[(''insight'', PInt 5)]" "[]" "ValueError []"]
    by (simp add: demo_server_def)
  show ?thesis
    using a b c d e by (simp add: no_strip_def)
qed

end
